theory Spec2Isabelle
  imports Main "HOL-Library.AList"
begin

section \<open>Values, documents and counter records\<close>

text \<open>
  The plugin of \<^verbatim>\<open>src/index.ts\<close> keeps one counter document per pair of a counter id
  and a reference value in a collection of the host database, and writes the next value
  of the matching counter into the increment field of every document that is saved for
  the first time.

  A field of a document holds a string or a number. Reading a field that a plain object
  does not have gives \<^verbatim>\<open>undefined\<close>, which is \<open>None\<close> of a map here. The source types the
  argument of \<^verbatim>\<open>getReferenceField\<close> as \<^verbatim>\<open>StringMap\<close> and passes it \<^verbatim>\<open>this.toJSON()\<close>,
  so the values are not restricted to strings.
\<close>

datatype jsval = JStr string | JNum int

type_synonym StringMap = "string \<rightharpoonup> jsval"

text \<open>
  The object built by \<^verbatim>\<open>getReferenceField\<close> keeps its keys in the order of their first
  assignment, and a key may hold \<^verbatim>\<open>undefined\<close>. The \<^verbatim>\<open>reference\<close> of a counter document
  is such an object, or \<^verbatim>\<open>null\<close> (\<open>None\<close>) for a counter without reference fields.
\<close>

type_synonym refobj = "(string \<times> jsval option) list"

record CounterDocument =
  id_doc :: string
  reference :: "refobj option"
  counter :: int

text \<open>
  The content of the collection behind \<^verbatim>\<open>counterModel\<close>, in the order of insertion.
  The counter is an unbounded integer: the values a counter takes start at 0 and grow by
  1, far below the range where a number of the host loses precision.
\<close>

type_synonym store = "CounterDocument list"

record Document =
  isNew :: bool
  doc_fields :: StringMap

definition toJSON :: "Document \<Rightarrow> StringMap" where
  "toJSON doc = doc_fields doc"

definition set_field :: "Document \<Rightarrow> string \<Rightarrow> jsval \<Rightarrow> Document" where
  "set_field doc path val = doc\<lparr>doc_fields := (doc_fields doc)(path \<mapsto> val)\<rparr>"

section \<open>Errors\<close>

text \<open>
  One constructor per place where the source throws, and two for the failures the host
  database reports to a call. The source throws a plain \<^verbatim>\<open>Error\<close> everywhere:
  \<^item> \<open>IncFieldMandatory\<close>: \<^verbatim>\<open>incField option does not null is mandatory\<close>;
  \<^item> \<open>ReferenceWithoutName\<close>: \<^verbatim>\<open>Cannot use reference fields without specifying a name\<close>;
  \<^item> \<open>FieldNotNumber f\<close>: \<^verbatim>\<open>Auto increment field "f" already present and not of type "Number"\<close>;
  \<^item> \<open>NotMongoose\<close>: \<^verbatim>\<open>Please, pass mongoose while requiring mongoose-counters\<close>;
  \<^item> \<open>TypeError\<close>: a method called on \<^verbatim>\<open>undefined\<close>;
  \<^item> \<open>OverwriteModelError n\<close>: the host refuses to register a second model named \<open>n\<close>;
  \<^item> \<open>DuplicateKey\<close>, \<open>StorageUnavailable\<close>: the database rejects the call.

  The two predicates below group them by cause: a configuration error is one of the two
  that the checks of the constructor throw, a schema error is the one that
  \<^verbatim>\<open>addCounterToSchema\<close> throws.
\<close>

datatype error =
    IncFieldMandatory
  | ReferenceWithoutName
  | FieldNotNumber string
  | NotMongoose
  | TypeError
  | OverwriteModelError string
  | DuplicateKey
  | StorageUnavailable

fun is_ConfigurationError :: "error \<Rightarrow> bool" where
  "is_ConfigurationError IncFieldMandatory = True"
| "is_ConfigurationError ReferenceWithoutName = True"
| "is_ConfigurationError _ = False"

fun is_SchemaError :: "error \<Rightarrow> bool" where
  "is_SchemaError (FieldNotNumber _) = True"
| "is_SchemaError _ = False"

section \<open>Options\<close>

text \<open>
  \<^verbatim>\<open>Partial<CounterOptions>\<close>: every key may be missing from the object (\<open>None\<close>), and a
  key that is there may hold \<^verbatim>\<open>undefined\<close>. The \<^verbatim>\<open>id\<close> may also be \<^verbatim>\<open>null\<close>. The
  constructor accepts a single field name where the type asks for an array.
\<close>

datatype 'a js = Undefined | Null | Val 'a

datatype fields_arg = FieldList "string list" | FieldName string

record PartialOptions =
  id_arg :: "string js option"
  incField_arg :: "string option option"
  referenceFields_arg :: "fields_arg option option"
  collectionName_arg :: "string option option"

text \<open>The options of a constructed counter: \<^verbatim>\<open>this.options\<close> after the constructor.\<close>

record CounterOptions =
  id_opt :: string
  incField :: string
  referenceFields :: "string list"
  collectionName :: "string option"

text \<open>
  \<^verbatim>\<open>{ ...this.options, ...options }\<close>: a key of \<^verbatim>\<open>options\<close> wins over the default, also
  when it holds \<^verbatim>\<open>undefined\<close>.
\<close>

definition spread :: "'a \<Rightarrow> 'a option \<Rightarrow> 'a" where
  "spread dflt supplied = (case supplied of None \<Rightarrow> dflt | Some v \<Rightarrow> v)"

section \<open>The host: registered models and the target schema\<close>

text \<open>
  A registered model: its name, and the collection named in the options of its schema.
  The host takes an empty name as no name and derives the collection from the name of the
  model; this is \<open>None\<close>.
\<close>

record CounterModel =
  modelName :: string
  collection :: "string option"

record Mongoose =
  models :: "CounterModel list"

text \<open>
  The target schema: the declared paths with the name of their type
  (\<^verbatim>\<open>schemaKey.instance\<close>), the static methods and the hooks registered on it.
\<close>

record Schema =
  paths :: "string \<rightharpoonup> string"
  statics :: "string list"
  pre_hooks :: "string list"

record MongooseCounter =
  schema :: Schema
  options :: CounterOptions
  useReference :: bool
  counterModel :: CounterModel

text \<open>
  \<^verbatim>\<open>createCounterModel\<close>: the model is named after the collection and the id and is
  registered with the host. A \<^verbatim>\<open>collectionName\<close> holding \<^verbatim>\<open>undefined\<close> makes
  \<^verbatim>\<open>collectionName.charAt\<close> throw. The first argument is \<^verbatim>\<open>String.prototype.toUpperCase\<close>
  of the host, applied to the first character of the collection name; \<^verbatim>\<open>charAt(0)\<close> of
  the empty string is the empty string, which stays empty. The schema of the model is
  created anew by every call, so the host throws when the name is registered already.
\<close>

definition createCounterModel ::
  "(string \<Rightarrow> string) \<Rightarrow> Mongoose \<Rightarrow> string option \<Rightarrow> string \<Rightarrow>
   (error + CounterModel) \<times> Mongoose" where
  "createCounterModel toUpperCase mongoose collName ident =
     (case collName of
        None \<Rightarrow> (Inl TypeError, mongoose)
      | Some cn \<Rightarrow>
          (let name = (case cn of [] \<Rightarrow> [] | c # cs \<Rightarrow> toUpperCase [c] @ cs) @ ''_'' @ ident;
               m = \<lparr>modelName = name, collection = (if cn = [] then None else Some cn)\<rparr>
           in if name \<in> modelName ` set (models mongoose)
              then (Inl (OverwriteModelError name), mongoose)
              else (Inr m, mongoose\<lparr>models := models mongoose @ [m]\<rparr>)))"

text \<open>
  The constructor. The result carries the state of the host as well, so that a failure
  shows what had been created before it. \<^verbatim>\<open>this.options\<close> is assigned before the model is
  created, so its \<^verbatim>\<open>collectionName\<close> is the merged value, which may be \<^verbatim>\<open>undefined\<close>.
\<close>

definition constructor ::
  "(string \<Rightarrow> string) \<Rightarrow> Mongoose \<Rightarrow> Schema \<Rightarrow> PartialOptions option \<Rightarrow>
   (error + MongooseCounter) \<times> Mongoose" where
  "constructor toUpperCase mongoose sch opts =
     (let id0 = (case opts of None \<Rightarrow> Null | Some p \<Rightarrow> spread Null (id_arg p));
          incField0 = (case opts of None \<Rightarrow> Some ''_id'' | Some p \<Rightarrow> spread (Some ''_id'') (incField_arg p));
          refs0 = (case opts of None \<Rightarrow> None | Some p \<Rightarrow> spread None (referenceFields_arg p));
          coll0 = (case opts of None \<Rightarrow> Some ''counters''
                   | Some p \<Rightarrow> spread (Some ''counters'') (collectionName_arg p))
      in case incField0 of
           None \<Rightarrow> (Inl IncFieldMandatory, mongoose)
         | Some inc \<Rightarrow>
             if inc = [] then (Inl IncFieldMandatory, mongoose)
             else
               (let useRef = (refs0 \<noteq> None);
                    refs = (case refs0 of
                              None \<Rightarrow> [inc]
                            | Some (FieldList fs) \<Rightarrow> fs
                            | Some (FieldName f) \<Rightarrow> [f])
                in if useRef \<and> id0 = Null then (Inl ReferenceWithoutName, mongoose)
                   else
                     (let ident = (case id0 of Val s \<Rightarrow> if s = [] then inc else s | _ \<Rightarrow> inc)
                      in case createCounterModel toUpperCase mongoose coll0 ident of
                           (Inl e, mongoose') \<Rightarrow> (Inl e, mongoose')
                         | (Inr m, mongoose') \<Rightarrow>
                             (Inr \<lparr>schema = sch,
                                   options = \<lparr>id_opt = ident, incField = inc,
                                              referenceFields = refs,
                                              collectionName = coll0\<rparr>,
                                   useReference = useRef,
                                   counterModel = m\<rparr>, mongoose'))))"

section \<open>Setting up the target schema\<close>

definition addCounterToSchema :: "MongooseCounter \<Rightarrow> error + MongooseCounter" where
  "addCounterToSchema this =
     (let f = incField (options this)
      in case paths (schema this) f of
           None \<Rightarrow> Inr (this\<lparr>schema := (schema this)\<lparr>paths := (paths (schema this))(f \<mapsto> ''Number'')\<rparr>\<rparr>)
         | Some inst \<Rightarrow> if inst \<noteq> ''Number'' then Inl (FieldNotNumber f) else Inr this)"

definition addStaticMethods :: "MongooseCounter \<Rightarrow> MongooseCounter" where
  "addStaticMethods this =
     this\<lparr>schema := (schema this)\<lparr>statics := statics (schema this) @ [''resetCounter'']\<rparr>\<rparr>"

definition addHooks :: "MongooseCounter \<Rightarrow> MongooseCounter" where
  "addHooks this =
     this\<lparr>schema := (schema this)\<lparr>pre_hooks := pre_hooks (schema this) @ [''save'']\<rparr>\<rparr>"

definition initialize :: "MongooseCounter \<Rightarrow> error + MongooseCounter" where
  "initialize this =
     (case addCounterToSchema this of
        Inl e \<Rightarrow> Inl e
      | Inr this1 \<Rightarrow> Inr (addHooks (addStaticMethods this1)))"

text \<open>
  The exported function: \<open>None\<close> stands for an argument that is not a \<^verbatim>\<open>Mongoose\<close>
  instance. The returned plugin is applied to a schema and its options at once.
\<close>

definition mongooseCounter ::
  "(string \<Rightarrow> string) \<Rightarrow> Mongoose option \<Rightarrow> Schema \<Rightarrow> PartialOptions option \<Rightarrow>
   (error + MongooseCounter) \<times> Mongoose option" where
  "mongooseCounter toUpperCase mongoose sch opts =
     (case mongoose of
        None \<Rightarrow> (Inl NotMongoose, None)
      | Some mg \<Rightarrow>
          (case constructor toUpperCase mg sch opts of
             (Inl e, mg') \<Rightarrow> (Inl e, Some mg')
           | (Inr cnt, mg') \<Rightarrow> (initialize cnt, Some mg')))"

section \<open>The reference of a document\<close>

text \<open>
  \<^verbatim>\<open>getReferenceField\<close>: \<^verbatim>\<open>null\<close> without reference fields; otherwise the object that the
  \<^verbatim>\<open>reduce\<close> fills, one assignment \<^verbatim>\<open>map[f] = document[f]\<close> per configured field. An
  assignment to a key that is there keeps the key's place, as \<open>AList.update\<close> does.
  (The test \<^verbatim>\<open>referenceFields === undefined\<close> never holds after the constructor.)

  The names of the reference fields are taken to be ordinary field names. For a name that
  is written like an array index the object would list the key before the others, and for
  a name that every object inherits, such as \<^verbatim>\<open>__proto__\<close>, the read or the assignment
  would not reach an own key; neither is modelled.
\<close>

definition getReferenceField :: "MongooseCounter \<Rightarrow> StringMap \<Rightarrow> refobj option" where
  "getReferenceField this document =
     (if \<not> useReference this then None
      else Some (foldl (\<lambda>map f. AList.update f (document f) map) [] (referenceFields (options this))))"

section \<open>The two calls to the database\<close>

text \<open>
  A condition \<^verbatim>\<open>{ id, reference }\<close> selects the counter documents with that id and exactly
  that reference; every counter document carries a \<^verbatim>\<open>reference\<close>, since it is created from
  such a condition.
\<close>

definition matches :: "string \<Rightarrow> refobj option \<Rightarrow> CounterDocument \<Rightarrow> bool" where
  "matches i r d \<longleftrightarrow> id_doc d = i \<and> reference d = r"

text \<open>
  \<^verbatim>\<open>findOneAndUpdate({ id, reference }, { $inc: { counter: 1 } }, { new: true, upsert: true })\<close>
  as one step of the database: the first document that matches is incremented; if none
  matches, a document is inserted from the condition, its counter counted up from 0.
  The updated document is returned (\<^verbatim>\<open>new: true\<close>).
\<close>

fun upsert_inc :: "string \<Rightarrow> refobj option \<Rightarrow> store \<Rightarrow> CounterDocument \<times> store" where
  "upsert_inc i r [] =
     (let d = \<lparr>id_doc = i, reference = r, counter = 0 + 1\<rparr> in (d, [d]))"
| "upsert_inc i r (d # ds) =
     (if matches i r d then (let d' = d\<lparr>counter := counter d + 1\<rparr> in (d', d' # ds))
      else (let (res, ds') = upsert_inc i r ds in (res, d # ds')))"

text \<open>
  Whether the database carries a call out is decided by the host: the first argument is
  the failure it reports, if any, and a call that fails changes nothing.
\<close>

definition findOneAndUpdate ::
  "error option \<Rightarrow> string \<Rightarrow> refobj option \<Rightarrow> store \<Rightarrow> (error + CounterDocument) \<times> store" where
  "findOneAndUpdate host i r st =
     (case host of
        Some err \<Rightarrow> (Inl err, st)
      | None \<Rightarrow> (let (res, st') = upsert_inc i r st in (Inr res, st')))"

text \<open>
  \<^verbatim>\<open>where(condition).setOptions({ multi: true }).update({ $set: { counter: 0 } }, next)\<close>:
  the condition always has an id and may have a reference.
\<close>

definition cond_matches :: "string \<times> refobj option option \<Rightarrow> CounterDocument \<Rightarrow> bool" where
  "cond_matches cond d \<longleftrightarrow>
     id_doc d = fst cond \<and> (case snd cond of None \<Rightarrow> True | Some r \<Rightarrow> reference d = r)"

definition update_multi ::
  "error option \<Rightarrow> string \<times> refobj option option \<Rightarrow> store \<Rightarrow> error option \<times> store" where
  "update_multi host cond st =
     (case host of
        Some err \<Rightarrow> (Some err, st)
      | None \<Rightarrow> (None, map (\<lambda>d. if cond_matches cond d then d\<lparr>counter := 0\<rparr> else d) st))"

section \<open>The static method and the hook\<close>

text \<open>
  \<^verbatim>\<open>resetCounter(id, reference, cb)\<close>: the second argument is the reference mapping or,
  when the caller gives no reference, the callback itself. The result is what the callback
  receives, and the collection after the call.
\<close>

datatype reset_arg = Callback | Reference StringMap

definition resetCounter ::
  "MongooseCounter \<Rightarrow> error option \<Rightarrow> string \<Rightarrow> reset_arg \<Rightarrow> store \<Rightarrow> error option \<times> store" where
  "resetCounter parent host i ref st =
     (let condition = (case ref of
                         Callback \<Rightarrow> (i, None)
                       | Reference m \<Rightarrow> (i, Some (getReferenceField parent m)))
      in update_multi host condition st)"

text \<open>
  The \<^verbatim>\<open>pre('save')\<close> hook. The result is the argument of \<^verbatim>\<open>next\<close> (\<open>None\<close> for
  \<^verbatim>\<open>next()\<close>), the document and the collection after the hook.
\<close>

definition pre_save ::
  "MongooseCounter \<Rightarrow> error option \<Rightarrow> Document \<Rightarrow> store \<Rightarrow> error option \<times> Document \<times> store" where
  "pre_save parent host this st =
     (if \<not> isNew this then (None, this, st)
      else
        (let ref = getReferenceField parent (toJSON this)
         in case findOneAndUpdate host (id_opt (options parent)) ref st of
              (Inr res, st') \<Rightarrow>
                (None, set_field this (incField (options parent)) (JNum (counter res)), st')
            | (Inl err, st') \<Rightarrow> (Some err, this, st')))"

section \<open>Notions used to state the properties\<close>

text \<open>
  The value of the counter that a call with the condition \<^verbatim>\<open>{ id, reference }\<close> finds: the
  counter of the first matching document, and 0 when there is none.
\<close>

definition current_value :: "string \<Rightarrow> refobj option \<Rightarrow> store \<Rightarrow> int" where
  "current_value i r st = (case find (matches i r) st of None \<Rightarrow> 0 | Some d \<Rightarrow> counter d)"

text \<open>
  Several saves in flight at once. Each save touches the collection in its one call to the
  database, which the database carries out as a whole, so a run of the saves is a sequence
  of hook executions taken in any order: a step picks any save that has not run yet, with
  whatever outcome the host gives its call.
\<close>

datatype call = Pending Document | Returned Document | Failed error

inductive step :: "MongooseCounter \<Rightarrow> call list \<times> store \<Rightarrow> call list \<times> store \<Rightarrow> bool"
  for parent :: MongooseCounter where
  returns:
    "n < length cs \<Longrightarrow> cs ! n = Pending d \<Longrightarrow> pre_save parent host d st = (None, d', st') \<Longrightarrow>
     step parent (cs, st) (cs[n := Returned d'], st')"
| fails:
    "n < length cs \<Longrightarrow> cs ! n = Pending d \<Longrightarrow> pre_save parent host d st = (Some e, d', st') \<Longrightarrow>
     step parent (cs, st) (cs[n := Failed e], st')"

text \<open>The values that the calls of a run have received in the field \<open>f\<close>, call by call.\<close>

fun returned :: "string \<Rightarrow> call \<Rightarrow> jsval list" where
  "returned f (Returned d) = (case doc_fields d f of None \<Rightarrow> [] | Some v \<Rightarrow> [v])"
| "returned f (Pending d) = []"
| "returned f (Failed e) = []"

definition returned_values :: "string \<Rightarrow> call list \<Rightarrow> jsval list" where
  "returned_values f cs = concat (map (returned f) cs)"

fun is_Returned :: "call \<Rightarrow> bool" where
  "is_Returned (Returned d) = True"
| "is_Returned _ = False"

text \<open>
  What holds of every state of a run in which all saves are first saves with the reference
  \<open>r\<close>: the values received so far are, without repetition, the numbers from 1 to the
  current value of the counter, one for each call that has returned.
\<close>

definition run_inv :: "MongooseCounter \<Rightarrow> refobj option \<Rightarrow> call list \<Rightarrow> store \<Rightarrow> bool" where
  "run_inv parent r cs st \<longleftrightarrow>
     (\<forall>d. Pending d \<in> set cs \<longrightarrow> isNew d \<and> getReferenceField parent (toJSON d) = r) \<and>
     0 \<le> current_value (id_opt (options parent)) r st \<and>
     distinct (returned_values (incField (options parent)) cs) \<and>
     set (returned_values (incField (options parent)) cs) =
       JNum ` {1..current_value (id_opt (options parent)) r st} \<and>
     length (returned_values (incField (options parent)) cs) = length (filter is_Returned cs)"

section \<open>A scoped counter and a global counter to run the operations on\<close>

text \<open>
  The options \<^verbatim>\<open>{ id: 'seq', referenceFields: ['country', 'city'] }\<close> on a schema that
  declares the two fields, and the counter the constructor builds from them.
\<close>

definition seq_options :: PartialOptions where
  "seq_options =
     \<lparr>id_arg = Some (Val ''seq''), incField_arg = None,
      referenceFields_arg = Some (Some (FieldList [''country'', ''city''])),
      collectionName_arg = None\<rparr>"

definition person_schema :: Schema where
  "person_schema =
     \<lparr>paths = [''country'' \<mapsto> ''String'', ''city'' \<mapsto> ''String''], statics = [], pre_hooks = []\<rparr>"

definition no_models :: Mongoose where
  "no_models = \<lparr>models = []\<rparr>"

definition seq_counter :: MongooseCounter where
  "seq_counter =
     \<lparr>schema = person_schema,
      options = \<lparr>id_opt = ''seq'', incField = ''_id'',
                 referenceFields = [''country'', ''city''], collectionName = Some ''counters''\<rparr>,
      useReference = True,
      counterModel = \<lparr>modelName = ''Counters_seq'', collection = Some ''counters''\<rparr>\<rparr>"

text \<open>The options \<^verbatim>\<open>{ incField: 'id' }\<close>: a counter without reference fields.\<close>

definition global_options :: PartialOptions where
  "global_options =
     \<lparr>id_arg = None, incField_arg = Some (Some ''id''),
      referenceFields_arg = None, collectionName_arg = None\<rparr>"

definition global_counter :: MongooseCounter where
  "global_counter =
     \<lparr>schema = person_schema,
      options = \<lparr>id_opt = ''id'', incField = ''id'',
                 referenceFields = [''id''], collectionName = Some ''counters''\<rparr>,
      useReference = False,
      counterModel = \<lparr>modelName = ''Counters_id'', collection = Some ''counters''\<rparr>\<rparr>"

text \<open>A document not saved before, and the reference the scoped counter derives from it.\<close>

definition person :: "string \<Rightarrow> string \<Rightarrow> Document" where
  "person c t = \<lparr>isNew = True, doc_fields = [''country'' \<mapsto> JStr c, ''city'' \<mapsto> JStr t]\<rparr>"

definition place :: "string \<Rightarrow> string \<Rightarrow> refobj option" where
  "place c t = Some [(''country'', Some (JStr c)), (''city'', Some (JStr t))]"

definition seq_record :: "string \<Rightarrow> string \<Rightarrow> int \<Rightarrow> CounterDocument" where
  "seq_record c t v = \<lparr>id_doc = ''seq'', reference = place c t, counter = v\<rparr>"

text \<open>
  A document that has a city and no country, and the counter document of its reference:
  the key \<^verbatim>\<open>country\<close> is there and holds \<^verbatim>\<open>undefined\<close>.
\<close>

definition townsman :: "string \<Rightarrow> Document" where
  "townsman t = \<lparr>isNew = True, doc_fields = [''city'' \<mapsto> JStr t]\<rparr>"

definition town_record :: "string \<Rightarrow> int \<Rightarrow> CounterDocument" where
  "town_record t v =
     \<lparr>id_doc = ''seq'', reference = Some [(''country'', None), (''city'', Some (JStr t))],
      counter = v\<rparr>"

text \<open>The counter document of the counter without reference fields.\<close>

definition global_record :: "int \<Rightarrow> CounterDocument" where
  "global_record v = \<lparr>id_doc = ''id'', reference = None, counter = v\<rparr>"

section \<open>The upsert, step by step\<close>

lemma upsert_inc_absent:
  "find (matches i r) st = None \<Longrightarrow>
   upsert_inc i r st =
     (\<lparr>id_doc = i, reference = r, counter = 1\<rparr>, st @ [\<lparr>id_doc = i, reference = r, counter = 1\<rparr>])"
  by (induction st) (auto simp: Let_def split: if_splits)

lemma upsert_inc_present:
  "find (matches i r) st = Some d \<Longrightarrow>
   fst (upsert_inc i r st) = d\<lparr>counter := counter d + 1\<rparr> \<and>
   find (matches i r) (snd (upsert_inc i r st)) = Some (d\<lparr>counter := counter d + 1\<rparr>) \<and>
   length (snd (upsert_inc i r st)) = length st"
  by (induction st) (auto simp: Let_def matches_def split: if_splits prod.splits)

lemma upsert_inc_matches: "matches i r (fst (upsert_inc i r st))"
  by (induction st) (auto simp: Let_def matches_def split: prod.splits)

lemma upsert_inc_counter: "counter (fst (upsert_inc i r st)) = current_value i r st + 1"
  by (induction st) (auto simp: Let_def current_value_def split: prod.splits)

lemma upsert_inc_current:
  "current_value i r (snd (upsert_inc i r st)) = current_value i r st + 1"
  by (induction st) (auto simp: Let_def current_value_def matches_def split: prod.splits)

lemma upsert_inc_length: "length st \<le> length (snd (upsert_inc i r st))"
  by (induction st) (auto simp: Let_def split: prod.splits)

lemma upsert_inc_frame:
  "j < length st \<Longrightarrow> \<not> matches i r (st ! j) \<Longrightarrow> snd (upsert_inc i r st) ! j = st ! j"
  by (induction st arbitrary: j) (auto simp: Let_def nth_Cons split: prod.splits nat.splits)

lemma upsert_inc_other:
  "(i', r') \<noteq> (i, r) \<Longrightarrow>
   find (matches i' r') (snd (upsert_inc i r st)) = find (matches i' r') st"
  by (induction st) (auto simp: Let_def matches_def split: prod.splits)

section \<open>The counters of the examples are what the constructor builds\<close>

lemma constructor_seq:
  "toUpperCase ''c'' = ''C'' \<Longrightarrow>
   constructor toUpperCase no_models person_schema (Some seq_options) =
     (Inr seq_counter, \<lparr>models = [counterModel seq_counter]\<rparr>)"
  by (simp add: constructor_def seq_options_def seq_counter_def no_models_def spread_def
      createCounterModel_def Let_def)

lemma constructor_global:
  "toUpperCase ''c'' = ''C'' \<Longrightarrow>
   constructor toUpperCase no_models person_schema (Some global_options) =
     (Inr global_counter, \<lparr>models = [counterModel global_counter]\<rparr>)"
  by (simp add: constructor_def global_options_def global_counter_def no_models_def spread_def
      createCounterModel_def Let_def)

lemma getReferenceField_person: "getReferenceField seq_counter (toJSON (person c t)) = place c t"
  by (simp add: getReferenceField_def seq_counter_def toJSON_def person_def place_def)

lemma seq_counter_options:
  "id_opt (options seq_counter) = ''seq''" "incField (options seq_counter) = ''_id''"
  by (simp_all add: seq_counter_def)

section \<open>Allocation on a first save\<close>

lemma pre_save_new:
  "isNew this \<Longrightarrow>
   pre_save parent None this st =
     (None,
      set_field this (incField (options parent))
        (JNum (counter (fst (upsert_inc (id_opt (options parent))
                               (getReferenceField parent (toJSON this)) st)))),
      snd (upsert_inc (id_opt (options parent)) (getReferenceField parent (toJSON this)) st))"
  by (simp add: pre_save_def findOneAndUpdate_def Let_def split: prod.splits)

lemma set_field_read:
  "doc_fields (set_field doc path val) path = Some val"
  "g \<noteq> path \<Longrightarrow> doc_fields (set_field doc path val) g = doc_fields doc g"
  "isNew (set_field doc path val) = isNew doc"
  by (simp_all add: set_field_def)

text \<open>
  Claim C1. The hook of a document saved for the first time looks for the counter document
  of its id and reference in one call. If there is none, one is created and counted up
  from 0, so the document receives 1. If there is one, its counter grows by exactly 1 and
  the document receives the new value. In both cases the increment field of the document
  holds the new value of the counter after the hook, and nothing else of the document has
  changed.
\<close>

theorem pre_save_allocates:
  assumes "isNew this"
  shows "(find (matches (id_opt (options parent)) (getReferenceField parent (toJSON this))) st = None \<longrightarrow>
            pre_save parent None this st =
              (None, set_field this (incField (options parent)) (JNum 1),
               st @ [\<lparr>id_doc = id_opt (options parent),
                       reference = getReferenceField parent (toJSON this), counter = 1\<rparr>]) \<and>
            doc_fields (fst (snd (pre_save parent None this st))) (incField (options parent)) =
              Some (JNum 1)) \<and>
         (\<forall>d. find (matches (id_opt (options parent)) (getReferenceField parent (toJSON this))) st = Some d \<longrightarrow>
            (\<exists>st'. pre_save parent None this st =
                      (None, set_field this (incField (options parent)) (JNum (counter d + 1)), st') \<and>
                    find (matches (id_opt (options parent)) (getReferenceField parent (toJSON this))) st' =
                      Some (d\<lparr>counter := counter d + 1\<rparr>) \<and>
                    length st' = length st) \<and>
            doc_fields (fst (snd (pre_save parent None this st))) (incField (options parent)) =
              Some (JNum (counter d + 1))) \<and>
         doc_fields (fst (snd (pre_save parent None this st))) (incField (options parent)) =
           Some (JNum (current_value (id_opt (options parent))
                         (getReferenceField parent (toJSON this)) st + 1)) \<and>
         (\<forall>g. g \<noteq> incField (options parent) \<longrightarrow>
            doc_fields (fst (snd (pre_save parent None this st))) g = doc_fields this g) \<and>
         isNew (fst (snd (pre_save parent None this st))) = isNew this"
proof (intro conjI impI allI)
  assume absent: "find (matches (id_opt (options parent)) (getReferenceField parent (toJSON this))) st = None"
  from upsert_inc_absent [OF absent]
  show "pre_save parent None this st =
          (None, set_field this (incField (options parent)) (JNum 1),
           st @ [\<lparr>id_doc = id_opt (options parent),
                   reference = getReferenceField parent (toJSON this), counter = 1\<rparr>])"
    using assms by (simp add: pre_save_new)
  then show "doc_fields (fst (snd (pre_save parent None this st))) (incField (options parent)) =
      Some (JNum 1)"
    by (simp add: set_field_read)
next
  fix d
  assume present: "find (matches (id_opt (options parent)) (getReferenceField parent (toJSON this))) st = Some d"
  from upsert_inc_present [OF present]
  show "\<exists>st'. pre_save parent None this st =
                (None, set_field this (incField (options parent)) (JNum (counter d + 1)), st') \<and>
              find (matches (id_opt (options parent)) (getReferenceField parent (toJSON this))) st' =
                Some (d\<lparr>counter := counter d + 1\<rparr>) \<and>
              length st' = length st"
    using assms by (simp add: pre_save_new)
  from upsert_inc_present [OF present]
  show "doc_fields (fst (snd (pre_save parent None this st))) (incField (options parent)) =
      Some (JNum (counter d + 1))"
    using assms by (simp add: pre_save_new set_field_read)
next
  show "doc_fields (fst (snd (pre_save parent None this st))) (incField (options parent)) =
      Some (JNum (current_value (id_opt (options parent))
                    (getReferenceField parent (toJSON this)) st + 1))"
    using assms by (simp add: pre_save_new upsert_inc_counter set_field_read)
next
  fix g
  assume "g \<noteq> incField (options parent)"
  then show "doc_fields (fst (snd (pre_save parent None this st))) g = doc_fields this g"
    using assms by (simp add: pre_save_new set_field_read)
next
  show "isNew (fst (snd (pre_save parent None this st))) = isNew this"
    using assms by (simp add: pre_save_new set_field_read)
qed

theorem pre_save_allocates_witness:
  "isNew (person ''FR'' ''Paris'') \<and>
   pre_save seq_counter None (person ''FR'' ''Paris'') [] =
     (None, set_field (person ''FR'' ''Paris'') ''_id'' (JNum 1), [seq_record ''FR'' ''Paris'' 1]) \<and>
   doc_fields (fst (snd (pre_save seq_counter None (person ''FR'' ''Paris'') []))) ''_id'' =
     Some (JNum 1) \<and>
   doc_fields (fst (snd (pre_save seq_counter None (person ''FR'' ''Paris'') []))) ''city'' =
     Some (JStr ''Paris'') \<and>
   pre_save seq_counter None (person ''FR'' ''Paris'')
       [seq_record ''US'' ''NYC'' 4, seq_record ''FR'' ''Paris'' 2] =
     (None, set_field (person ''FR'' ''Paris'') ''_id'' (JNum 3),
      [seq_record ''US'' ''NYC'' 4, seq_record ''FR'' ''Paris'' 3]) \<and>
   doc_fields (fst (snd (pre_save seq_counter None (person ''FR'' ''Paris'')
       [seq_record ''US'' ''NYC'' 4, seq_record ''FR'' ''Paris'' 2]))) ''_id'' = Some (JNum 3)"
proof -
  let ?two = "[seq_record ''US'' ''NYC'' 4, seq_record ''FR'' ''Paris'' 2]"
  have new: "isNew (person ''FR'' ''Paris'')" by (simp add: person_def)
  have nomatch: "\<not> matches ''seq'' (place ''FR'' ''Paris'') (seq_record ''US'' ''NYC'' 4)"
    by (simp add: matches_def seq_record_def place_def)
  have match: "matches ''seq'' (place ''FR'' ''Paris'') (seq_record ''FR'' ''Paris'' 2)"
    by (simp add: matches_def seq_record_def)
  have city: "doc_fields (person ''FR'' ''Paris'') ''city'' = Some (JStr ''Paris'')"
    by (simp add: person_def)
  note a = pre_save_allocates [OF new, of seq_counter "[]",
      unfolded seq_counter_options getReferenceField_person]
  note b = pre_save_allocates [OF new, of seq_counter ?two,
      unfolded seq_counter_options getReferenceField_person]
  from a have 1: "pre_save seq_counter None (person ''FR'' ''Paris'') [] =
     (None, set_field (person ''FR'' ''Paris'') ''_id'' (JNum 1), [seq_record ''FR'' ''Paris'' 1])"
    by (simp add: seq_record_def)
  from a have 2: "doc_fields (fst (snd (pre_save seq_counter None (person ''FR'' ''Paris'') []))) ''_id'' =
      Some (JNum 1)"
    by (simp add: set_field_read)
  from a city have 3: "doc_fields (fst (snd (pre_save seq_counter None (person ''FR'' ''Paris'') []))) ''city'' =
      Some (JStr ''Paris'')"
    by (simp add: set_field_read)
  have found: "find (matches ''seq'' (place ''FR'' ''Paris'')) ?two = Some (seq_record ''FR'' ''Paris'' 2)"
    using nomatch match by simp
  from b found have 4: "doc_fields (fst (snd (pre_save seq_counter None (person ''FR'' ''Paris'') ?two))) ''_id'' =
      Some (JNum 3)"
    by (auto simp add: seq_record_def set_field_read)
  from b found obtain st' where
    "pre_save seq_counter None (person ''FR'' ''Paris'') ?two =
       (None, set_field (person ''FR'' ''Paris'') ''_id'' (JNum 3), st')"
    by (auto simp add: seq_record_def)
  moreover have "snd (snd (pre_save seq_counter None (person ''FR'' ''Paris'') ?two)) =
       [seq_record ''US'' ''NYC'' 4, seq_record ''FR'' ''Paris'' 3]"
    using new nomatch match
    by (simp add: pre_save_new seq_counter_options getReferenceField_person seq_record_def Let_def)
  ultimately show ?thesis using new 1 2 3 4 by simp
qed

section \<open>The hook, case by case\<close>

lemma pre_save_new_value:
  "isNew this \<Longrightarrow>
   pre_save parent None this st =
     (None,
      set_field this (incField (options parent))
        (JNum (current_value (id_opt (options parent)) (getReferenceField parent (toJSON this)) st + 1)),
      snd (upsert_inc (id_opt (options parent)) (getReferenceField parent (toJSON this)) st))"
  by (simp add: pre_save_new upsert_inc_counter)

lemma pre_save_old: "\<not> isNew this \<Longrightarrow> pre_save parent host this st = (None, this, st)"
  by (simp add: pre_save_def)

lemma pre_save_rejected:
  "isNew this \<Longrightarrow> pre_save parent (Some err) this st = (Some err, this, st)"
  by (simp add: pre_save_def findOneAndUpdate_def)

lemma pre_save_store:
  "snd (snd (pre_save parent host this st)) = st \<or>
   snd (snd (pre_save parent host this st)) =
     snd (upsert_inc (id_opt (options parent)) (getReferenceField parent (toJSON this)) st)"
  by (cases host) (simp_all add: pre_save_def findOneAndUpdate_def Let_def split: prod.splits)

section \<open>The hook on the scoped counter of the examples\<close>

lemma person_new [simp]: "isNew (person c t)"
  by (simp add: person_def)

lemma townsman_new [simp]: "isNew (townsman t)"
  by (simp add: townsman_def)

lemma getReferenceField_townsman:
  "getReferenceField seq_counter (toJSON (townsman t)) =
     Some [(''country'', None), (''city'', Some (JStr t))]"
  by (simp add: getReferenceField_def seq_counter_def toJSON_def townsman_def)

lemma pre_save_seq_empty:
  "pre_save seq_counter None (person c t) [] =
     (None, set_field (person c t) ''_id'' (JNum 1), [seq_record c t 1])"
  by (simp add: pre_save_new seq_counter_options getReferenceField_person seq_record_def Let_def)

lemma pre_save_seq_first:
  "pre_save seq_counter None (person c t) (seq_record c t v # st) =
     (None, set_field (person c t) ''_id'' (JNum (v + 1)), seq_record c t (v + 1) # st)"
  by (simp add: pre_save_new seq_counter_options getReferenceField_person seq_record_def
      matches_def Let_def)

lemma pre_save_seq_second:
  "(c', t') \<noteq> (c, t) \<Longrightarrow>
   pre_save seq_counter None (person c t) [seq_record c' t' w, seq_record c t v] =
     (None, set_field (person c t) ''_id'' (JNum (v + 1)),
      [seq_record c' t' w, seq_record c t (v + 1)])"
  by (auto simp add: pre_save_new seq_counter_options getReferenceField_person seq_record_def
      matches_def place_def Let_def)

lemma pre_save_seq_append:
  "(c', t') \<noteq> (c, t) \<Longrightarrow>
   pre_save seq_counter None (person c t) [seq_record c' t' w] =
     (None, set_field (person c t) ''_id'' (JNum 1), [seq_record c' t' w, seq_record c t 1])"
  by (auto simp add: pre_save_new seq_counter_options getReferenceField_person seq_record_def
      matches_def place_def Let_def)

section \<open>Saves of documents that exist already\<close>

text \<open>
  Claim C7. The hook allocates exactly when the document is new. For a document that has
  been saved before, the hook calls \<^verbatim>\<open>next()\<close> at once: whatever the fields of the document
  hold, and whatever the database would answer, neither the document nor any counter
  document changes. For a new document the counter grows by 1 and the document receives
  the new value.
\<close>

theorem pre_save_only_when_new:
  "(\<not> isNew this \<longrightarrow> pre_save parent host this st = (None, this, st)) \<and>
   (isNew this \<longrightarrow>
      (\<exists>st'. pre_save parent None this st =
                (None,
                 set_field this (incField (options parent))
                   (JNum (current_value (id_opt (options parent))
                            (getReferenceField parent (toJSON this)) st + 1)),
                 st') \<and>
              current_value (id_opt (options parent)) (getReferenceField parent (toJSON this)) st' =
                current_value (id_opt (options parent)) (getReferenceField parent (toJSON this)) st + 1))"
  by (simp add: pre_save_old pre_save_new_value upsert_inc_current)

theorem pre_save_only_when_new_witness:
  "\<not> isNew ((set_field (person ''FR'' ''Paris'') ''_id'' (JNum 7))\<lparr>isNew := False\<rparr>) \<and>
   pre_save seq_counter (Some StorageUnavailable)
       ((set_field (person ''FR'' ''Paris'') ''_id'' (JNum 7))\<lparr>isNew := False\<rparr>)
       [seq_record ''FR'' ''Paris'' 2] =
     (None, (set_field (person ''FR'' ''Paris'') ''_id'' (JNum 7))\<lparr>isNew := False\<rparr>,
      [seq_record ''FR'' ''Paris'' 2]) \<and>
   isNew (person ''FR'' ''Paris'') \<and>
   (\<exists>st'. pre_save seq_counter None (person ''FR'' ''Paris'') [seq_record ''FR'' ''Paris'' 2] =
            (None, set_field (person ''FR'' ''Paris'') ''_id'' (JNum 3), st') \<and>
          current_value ''seq'' (place ''FR'' ''Paris'') st' = 3)"
proof -
  have cur: "current_value ''seq'' (place ''FR'' ''Paris'') [seq_record ''FR'' ''Paris'' 2] = 2"
    by (simp add: current_value_def matches_def seq_record_def)
  have old: "\<not> isNew ((set_field (person ''FR'' ''Paris'') ''_id'' (JNum 7))\<lparr>isNew := False\<rparr>)"
    by simp
  show ?thesis
    using pre_save_only_when_new
        [of "(set_field (person ''FR'' ''Paris'') ''_id'' (JNum 7))\<lparr>isNew := False\<rparr>"
          seq_counter "Some StorageUnavailable" "[seq_record ''FR'' ''Paris'' 2]"]
      pre_save_only_when_new
        [of "person ''FR'' ''Paris''" seq_counter None "[seq_record ''FR'' ''Paris'' 2]"]
      old cur
    by (simp add: seq_counter_options getReferenceField_person)
qed

section \<open>Other counters are left alone\<close>

text \<open>
  Claim C8. A save changes no counter document of another pair of id and reference: every
  counter document that does not match the pair of the save keeps its place and its
  content, and for every other pair the counter document that is found and its value are
  the same before and after. This covers a counter without reference fields, whose
  reference is \<^verbatim>\<open>null\<close>, next to counters with reference objects.
\<close>

theorem pre_save_frame:
  assumes "pre_save parent host this st = (e, this', st')"
  shows "length st \<le> length st' \<and>
         (\<forall>j<length st.
            \<not> matches (id_opt (options parent)) (getReferenceField parent (toJSON this)) (st ! j) \<longrightarrow>
            st' ! j = st ! j) \<and>
         (\<forall>i' r'. (i', r') \<noteq> (id_opt (options parent), getReferenceField parent (toJSON this)) \<longrightarrow>
            find (matches i' r') st' = find (matches i' r') st \<and>
            current_value i' r' st' = current_value i' r' st)"
proof -
  from assms have "st' = snd (snd (pre_save parent host this st))" by simp
  with pre_save_store [of parent host this st]
  consider "st' = st"
    | "st' = snd (upsert_inc (id_opt (options parent)) (getReferenceField parent (toJSON this)) st)"
    by auto
  then show ?thesis
  proof cases
    case 1
    then show ?thesis by simp
  next
    case 2
    then show ?thesis
      by (simp add: upsert_inc_length upsert_inc_frame upsert_inc_other current_value_def)
  qed
qed

theorem pre_save_frame_witness:
  "pre_save seq_counter None (person ''FR'' ''Paris'')
       [global_record 5, seq_record ''US'' ''NYC'' 4] =
     (None, set_field (person ''FR'' ''Paris'') ''_id'' (JNum 1),
      [global_record 5, seq_record ''US'' ''NYC'' 4, seq_record ''FR'' ''Paris'' 1]) \<and>
   [global_record 5, seq_record ''US'' ''NYC'' 4, seq_record ''FR'' ''Paris'' 1] ! 0 = global_record 5 \<and>
   [global_record 5, seq_record ''US'' ''NYC'' 4, seq_record ''FR'' ''Paris'' 1] ! 1 =
     seq_record ''US'' ''NYC'' 4 \<and>
   current_value ''id'' None
       [global_record 5, seq_record ''US'' ''NYC'' 4, seq_record ''FR'' ''Paris'' 1] = 5 \<and>
   current_value ''seq'' (place ''US'' ''NYC'')
       [global_record 5, seq_record ''US'' ''NYC'' 4, seq_record ''FR'' ''Paris'' 1] = 4"
proof -
  let ?st = "[global_record 5, seq_record ''US'' ''NYC'' 4]"
  let ?st' = "[global_record 5, seq_record ''US'' ''NYC'' 4, seq_record ''FR'' ''Paris'' 1]"
  have run: "pre_save seq_counter None (person ''FR'' ''Paris'') ?st =
      (None, set_field (person ''FR'' ''Paris'') ''_id'' (JNum 1), ?st')"
    by (simp add: pre_save_new seq_counter_options getReferenceField_person seq_record_def
        global_record_def matches_def place_def Let_def)
  have n0: "\<not> matches ''seq'' (place ''FR'' ''Paris'') (?st ! 0)"
    by (simp add: matches_def global_record_def)
  have n1: "\<not> matches ''seq'' (place ''FR'' ''Paris'') (?st ! 1)"
    by (simp add: matches_def seq_record_def place_def)
  have c0: "current_value ''id'' None ?st = 5"
    by (simp add: current_value_def matches_def global_record_def)
  have c1: "current_value ''seq'' (place ''US'' ''NYC'') ?st = 4"
    by (simp add: current_value_def matches_def global_record_def seq_record_def)
  note f = pre_save_frame [OF run, unfolded seq_counter_options getReferenceField_person]
  from f n0 have "?st' ! 0 = ?st ! 0" by simp
  moreover from f n1 have "?st' ! 1 = ?st ! 1" by simp
  moreover from f c0 have "current_value ''id'' None ?st' = 5" by simp
  moreover from f c1 have "current_value ''seq'' (place ''US'' ''NYC'') ?st' = 4"
    by (simp add: place_def)
  ultimately show ?thesis using run by simp
qed

section \<open>A call that the database rejects\<close>

text \<open>
  Claim C6, as stated, fails: the hook has no retry. A save whose call is rejected with a
  duplicate key, the other first save having created the counter document with value 1,
  hands the error to \<^verbatim>\<open>next\<close>; the document receives no value.
\<close>

theorem duplicate_key_surfaced:
  "pre_save seq_counter (Some DuplicateKey) (person ''FR'' ''Paris'') [seq_record ''FR'' ''Paris'' 1] =
     (Some DuplicateKey, person ''FR'' ''Paris'', [seq_record ''FR'' ''Paris'' 1])"
  by (simp add: pre_save_rejected)

text \<open>
  Claim C6, amended. When the database rejects the call of a first save, with a duplicate
  key or any other error, the hook makes no second call: it hands the error to the caller
  through \<^verbatim>\<open>next(err)\<close>, assigns nothing to the document and leaves the counter documents
  as they are. A value is received only from a call that the database carries out, for
  instance when the caller saves the document again: the successor of the counter's
  current value.
\<close>

theorem storage_error_not_retried:
  assumes "isNew this"
  shows "pre_save parent (Some err) this st = (Some err, this, st) \<and>
         (\<exists>st'. pre_save parent None this st =
                  (None,
                   set_field this (incField (options parent))
                     (JNum (current_value (id_opt (options parent))
                              (getReferenceField parent (toJSON this)) st + 1)),
                   st'))"
  using assms by (simp add: pre_save_rejected pre_save_new_value)

theorem storage_error_not_retried_witness:
  "isNew (person ''FR'' ''Paris'') \<and>
   pre_save seq_counter (Some DuplicateKey) (person ''FR'' ''Paris'') [seq_record ''FR'' ''Paris'' 1] =
     (Some DuplicateKey, person ''FR'' ''Paris'', [seq_record ''FR'' ''Paris'' 1]) \<and>
   (\<exists>st'. pre_save seq_counter None (person ''FR'' ''Paris'') [seq_record ''FR'' ''Paris'' 1] =
            (None, set_field (person ''FR'' ''Paris'') ''_id'' (JNum 2), st'))"
proof -
  have cur: "current_value ''seq'' (place ''FR'' ''Paris'') [seq_record ''FR'' ''Paris'' 1] = 1"
    by (simp add: current_value_def matches_def seq_record_def)
  have new: "isNew (person ''FR'' ''Paris'')" by simp
  from storage_error_not_retried [OF new, of seq_counter DuplicateKey "[seq_record ''FR'' ''Paris'' 1]"]
  show ?thesis using cur by (simp add: seq_counter_options getReferenceField_person)
qed

section \<open>Configuration\<close>

text \<open>
  What the constructor does when reference fields are given and the \<^verbatim>\<open>id\<close> key is missing
  or holds \<^verbatim>\<open>null\<close>: it throws a configuration error, and the host is as it was, no
  counter model has been created. The error is the one about the missing name whenever
  the increment field is usable.
\<close>

lemma constructor_reference_without_id:
  assumes "referenceFields_arg opts = Some (Some fs)"
    and "id_arg opts = None \<or> id_arg opts = Some Null"
  shows "\<exists>e. constructor toUpperCase mongoose sch (Some opts) = (Inl e, mongoose) \<and>
             is_ConfigurationError e \<and>
             (incField_arg opts = None \<longrightarrow> e = ReferenceWithoutName) \<and>
             (\<forall>inc. incField_arg opts = Some (Some inc) \<and> inc \<noteq> [] \<longrightarrow> e = ReferenceWithoutName)"
  using assms
  by (auto simp: constructor_def spread_def Let_def split: option.splits)

lemma constructor_reference_without_id_example:
  "constructor toUpperCase no_models person_schema (Some (seq_options\<lparr>id_arg := None\<rparr>)) =
     (Inl ReferenceWithoutName, no_models) \<and>
   constructor toUpperCase no_models person_schema
       (Some (seq_options\<lparr>id_arg := Some Null, referenceFields_arg := Some (Some (FieldName ''city''))\<rparr>)) =
     (Inl ReferenceWithoutName, no_models)"
proof -
  have r1: "referenceFields_arg (seq_options\<lparr>id_arg := None\<rparr>) =
      Some (Some (FieldList [''country'', ''city'']))"
    by (simp add: seq_options_def)
  have i1: "id_arg (seq_options\<lparr>id_arg := None\<rparr>) = None \<or>
      id_arg (seq_options\<lparr>id_arg := None\<rparr>) = Some Null"
    by simp
  have n1: "incField_arg (seq_options\<lparr>id_arg := None\<rparr>) = None"
    by (simp add: seq_options_def)
  let ?o2 = "seq_options\<lparr>id_arg := Some Null, referenceFields_arg := Some (Some (FieldName ''city''))\<rparr>"
  have r2: "referenceFields_arg ?o2 = Some (Some (FieldName ''city''))" by simp
  have i2: "id_arg ?o2 = None \<or> id_arg ?o2 = Some Null" by simp
  have n2: "incField_arg ?o2 = None" by (simp add: seq_options_def)
  from constructor_reference_without_id [OF r1 i1, of toUpperCase no_models person_schema] n1
  have 1: "constructor toUpperCase no_models person_schema (Some (seq_options\<lparr>id_arg := None\<rparr>)) =
     (Inl ReferenceWithoutName, no_models)" by auto
  from constructor_reference_without_id [OF r2 i2, of toUpperCase no_models person_schema] n2
  have 2: "constructor toUpperCase no_models person_schema (Some ?o2) =
     (Inl ReferenceWithoutName, no_models)"
    by auto
  from 1 2 show ?thesis by simp
qed

text \<open>
  Claim C3 does not hold of the code for every way in which the \<^verbatim>\<open>id\<close> can be absent. The
  test for a missing name is \<^verbatim>\<open>counterOptions.id === null\<close>, where the test for missing
  reference fields, a few lines above, is \<^verbatim>\<open>=== undefined\<close>. With the options
  \<^verbatim>\<open>{ id: undefined, referenceFields: ['country', 'city'] }\<close> the \<^verbatim>\<open>id\<close> key replaces the
  default \<^verbatim>\<open>null\<close> in the spread and \<^verbatim>\<open>undefined\<close> passes the test: the constructor throws
  nothing, takes the increment field \<^verbatim>\<open>_id\<close> as the name of a counter with reference fields,
  and registers its counter model with the host.
\<close>

theorem constructor_undefined_id:
  "constructor toUpperCase no_models person_schema (Some (seq_options\<lparr>id_arg := Some Undefined\<rparr>)) =
     (Inr \<lparr>schema = person_schema,
           options = \<lparr>id_opt = ''_id'', incField = ''_id'',
                      referenceFields = [''country'', ''city''],
                      collectionName = Some ''counters''\<rparr>,
           useReference = True,
           counterModel = \<lparr>modelName = toUpperCase ''c'' @ ''ounters__id'',
                           collection = Some ''counters''\<rparr>\<rparr>,
      \<lparr>models = [\<lparr>modelName = toUpperCase ''c'' @ ''ounters__id'',
                   collection = Some ''counters''\<rparr>]\<rparr>)"
  by (simp add: constructor_def seq_options_def no_models_def spread_def
      createCounterModel_def Let_def)

section \<open>The increment field of the target schema\<close>

text \<open>
  Claim C9. Setup looks the increment field up in the target schema. A field that is not
  declared is declared with the type \<^verbatim>\<open>Number\<close>; a field declared with another type makes
  setup fail with a schema error; a field declared as \<^verbatim>\<open>Number\<close> leaves the schema as it
  is.
\<close>

theorem addCounterToSchema_cases:
  "(paths (schema this) (incField (options this)) = None \<longrightarrow>
      addCounterToSchema this =
        Inr (this\<lparr>schema := (schema this)
               \<lparr>paths := (paths (schema this))(incField (options this) \<mapsto> ''Number'')\<rparr>\<rparr>)) \<and>
   (\<forall>inst. paths (schema this) (incField (options this)) = Some inst \<and> inst \<noteq> ''Number'' \<longrightarrow>
      addCounterToSchema this = Inl (FieldNotNumber (incField (options this))) \<and>
      initialize this = Inl (FieldNotNumber (incField (options this))) \<and>
      is_SchemaError (FieldNotNumber (incField (options this)))) \<and>
   (paths (schema this) (incField (options this)) = Some ''Number'' \<longrightarrow>
      addCounterToSchema this = Inr this)"
  by (simp add: addCounterToSchema_def initialize_def Let_def)

theorem addCounterToSchema_cases_witness:
  "paths (schema seq_counter) ''_id'' = None \<and>
   addCounterToSchema seq_counter =
     Inr (seq_counter\<lparr>schema := person_schema
            \<lparr>paths := [''country'' \<mapsto> ''String'', ''city'' \<mapsto> ''String'', ''_id'' \<mapsto> ''Number'']\<rparr>\<rparr>) \<and>
   paths (schema (seq_counter\<lparr>schema := person_schema\<lparr>paths := [''_id'' \<mapsto> ''String'']\<rparr>\<rparr>)) ''_id'' =
     Some ''String'' \<and>
   initialize (seq_counter\<lparr>schema := person_schema\<lparr>paths := [''_id'' \<mapsto> ''String'']\<rparr>\<rparr>) =
     Inl (FieldNotNumber ''_id'') \<and>
   paths (schema (seq_counter\<lparr>schema := person_schema\<lparr>paths := [''_id'' \<mapsto> ''Number'']\<rparr>\<rparr>)) ''_id'' =
     Some ''Number'' \<and>
   addCounterToSchema (seq_counter\<lparr>schema := person_schema\<lparr>paths := [''_id'' \<mapsto> ''Number'']\<rparr>\<rparr>) =
     Inr (seq_counter\<lparr>schema := person_schema\<lparr>paths := [''_id'' \<mapsto> ''Number'']\<rparr>\<rparr>)"
proof -
  let ?s = "seq_counter\<lparr>schema := person_schema\<lparr>paths := [''_id'' \<mapsto> ''String'']\<rparr>\<rparr>"
  let ?n = "seq_counter\<lparr>schema := person_schema\<lparr>paths := [''_id'' \<mapsto> ''Number'']\<rparr>\<rparr>"
  have f: "incField (options seq_counter) = ''_id''" "incField (options ?s) = ''_id''"
    "incField (options ?n) = ''_id''"
    by (simp_all add: seq_counter_def)
  have a: "paths (schema seq_counter) ''_id'' = None"
    by (simp add: seq_counter_def person_schema_def)
  have b: "paths (schema ?s) ''_id'' = Some ''String''" by simp
  have c: "paths (schema ?n) ''_id'' = Some ''Number''" by simp
  have sch: "schema seq_counter = person_schema" by (simp add: seq_counter_def)
  have p: "paths person_schema = [''country'' \<mapsto> ''String'', ''city'' \<mapsto> ''String'']"
    by (simp add: person_schema_def)
  from addCounterToSchema_cases [of seq_counter] a
  have 1: "addCounterToSchema seq_counter =
     Inr (seq_counter\<lparr>schema := person_schema
            \<lparr>paths := [''country'' \<mapsto> ''String'', ''city'' \<mapsto> ''String'', ''_id'' \<mapsto> ''Number'']\<rparr>\<rparr>)"
    by (simp add: f sch p)
  from addCounterToSchema_cases [of ?s] b
  have 2: "initialize ?s = Inl (FieldNotNumber ''_id'')"
    unfolding f by simp
  from addCounterToSchema_cases [of ?n] c
  have 3: "addCounterToSchema ?n = Inr ?n"
    unfolding f by simp
  from a b c 1 2 3 show ?thesis by simp
qed

section \<open>Resetting counters\<close>

lemma resetCounter_Callback:
  "resetCounter parent None i Callback st =
     (None, map (\<lambda>d. if id_doc d = i then d\<lparr>counter := 0\<rparr> else d) st)"
  by (simp add: resetCounter_def update_multi_def cond_matches_def)

lemma resetCounter_Reference:
  "resetCounter parent None i (Reference m) st =
     (None, map (\<lambda>d. if matches i (getReferenceField parent m) d then d\<lparr>counter := 0\<rparr> else d) st)"
  by (simp add: resetCounter_def update_multi_def cond_matches_def matches_def)

lemma find_map_reset:
  "(\<And>d. P d \<Longrightarrow> Q d) \<Longrightarrow> (\<And>d. P (d\<lparr>counter := 0\<rparr>) = P d) \<Longrightarrow>
   find P (map (\<lambda>d. if Q d then d\<lparr>counter := 0\<rparr> else d) st) =
     map_option (\<lambda>d. d\<lparr>counter := 0\<rparr>) (find P st)"
  by (induction st) auto

lemma find_map_untouched:
  "(\<And>d. P d \<Longrightarrow> \<not> Q d) \<Longrightarrow> (\<And>d. P (d\<lparr>counter := 0\<rparr>) = P d) \<Longrightarrow>
   find P (map (\<lambda>d. if Q d then d\<lparr>counter := 0\<rparr> else d) st) = find P st"
  by (induction st) auto

lemma current_value_reset_all:
  "current_value i r (map (\<lambda>d. if id_doc d = i then d\<lparr>counter := 0\<rparr> else d) st) = 0"
proof -
  have "find (matches i r) (map (\<lambda>d. if id_doc d = i then d\<lparr>counter := 0\<rparr> else d) st) =
        map_option (\<lambda>d. d\<lparr>counter := 0\<rparr>) (find (matches i r) st)"
    by (rule find_map_reset) (simp_all add: matches_def)
  then show ?thesis by (simp add: current_value_def split: option.splits)
qed

lemma current_value_reset_key:
  "current_value i r (map (\<lambda>d. if matches i r d then d\<lparr>counter := 0\<rparr> else d) st) = 0"
proof -
  have "find (matches i r) (map (\<lambda>d. if matches i r d then d\<lparr>counter := 0\<rparr> else d) st) =
        map_option (\<lambda>d. d\<lparr>counter := 0\<rparr>) (find (matches i r) st)"
    by (rule find_map_reset) (simp_all add: matches_def)
  then show ?thesis by (simp add: current_value_def split: option.splits)
qed

lemma current_value_reset_other:
  assumes "(i', r') \<noteq> (i, r)"
  shows "current_value i' r' (map (\<lambda>d. if matches i r d then d\<lparr>counter := 0\<rparr> else d) st) =
         current_value i' r' st"
proof -
  have "find (matches i' r') (map (\<lambda>d. if matches i r d then d\<lparr>counter := 0\<rparr> else d) st) =
        find (matches i' r') st"
    using assms by (intro find_map_untouched) (auto simp: matches_def)
  then show ?thesis by (simp add: current_value_def)
qed

text \<open>
  Claim C4. A reset called with an id and, in place of a reference, the callback sets the
  counter of every counter document with that id to 0 and changes nothing else. The
  callback receives no error, also when no counter document has the id, in which case the
  collection stays as it is. After the reset, the first save under that id with the
  reference of any of these counter documents receives 1 again.
\<close>

theorem resetCounter_all:
  "\<exists>st'. resetCounter parent None i Callback st = (None, st') \<and>
         length st' = length st \<and>
         (\<forall>j<length st. st' ! j = (if id_doc (st ! j) = i then (st ! j)\<lparr>counter := 0\<rparr> else st ! j)) \<and>
         ((\<forall>d\<in>set st. id_doc d \<noteq> i) \<longrightarrow> st' = st) \<and>
         (\<forall>d\<in>set st. \<forall>p this.
            id_doc d = i \<and> id_opt (options p) = i \<and> isNew this \<and>
            getReferenceField p (toJSON this) = reference d \<longrightarrow>
            (\<exists>st''. pre_save p None this st' =
                      (None, set_field this (incField (options p)) (JNum 1), st'')))"
proof -
  let ?st' = "map (\<lambda>d. if id_doc d = i then d\<lparr>counter := 0\<rparr> else d) st"
  have 1: "resetCounter parent None i Callback st = (None, ?st')"
    by (rule resetCounter_Callback)
  have 2: "(\<forall>d\<in>set st. id_doc d \<noteq> i) \<longrightarrow> ?st' = st"
    by (simp add: map_idI)
  have 3: "\<exists>st''. pre_save p None this ?st' =
                  (None, set_field this (incField (options p)) (JNum 1), st'')"
    if "id_opt (options p) = i" "isNew this" for p this
    using that by (simp add: pre_save_new_value current_value_reset_all)
  show ?thesis using 1 2 3 by (intro exI [of _ ?st']) simp
qed

theorem resetCounter_all_witness:
  "resetCounter seq_counter None ''seq'' Callback
       [seq_record ''FR'' ''Paris'' 2, global_record 5, seq_record ''US'' ''NYC'' 1] =
     (None, [seq_record ''FR'' ''Paris'' 0, global_record 5, seq_record ''US'' ''NYC'' 0]) \<and>
   (\<exists>st''. pre_save seq_counter None (person ''US'' ''NYC'')
              [seq_record ''FR'' ''Paris'' 0, global_record 5, seq_record ''US'' ''NYC'' 0] =
            (None, set_field (person ''US'' ''NYC'') ''_id'' (JNum 1), st'')) \<and>
   resetCounter seq_counter None ''seq'' Callback [global_record 5] = (None, [global_record 5])"
proof -
  let ?st = "[seq_record ''FR'' ''Paris'' 2, global_record 5, seq_record ''US'' ''NYC'' 1]"
  let ?cleared = "[seq_record ''FR'' ''Paris'' 0, global_record 5, seq_record ''US'' ''NYC'' 0]"
  from resetCounter_all [of seq_counter "''seq''" ?st]
  obtain st' where r: "resetCounter seq_counter None ''seq'' Callback ?st = (None, st')"
    and len: "length st' = length ?st"
    and nth: "\<forall>j<length ?st. st' ! j =
        (if id_doc (?st ! j) = ''seq'' then (?st ! j)\<lparr>counter := 0\<rparr> else ?st ! j)"
    and nxt: "\<forall>d\<in>set ?st. \<forall>p this.
        id_doc d = ''seq'' \<and> id_opt (options p) = ''seq'' \<and> isNew this \<and>
        getReferenceField p (toJSON this) = reference d \<longrightarrow>
        (\<exists>st''. pre_save p None this st' =
                  (None, set_field this (incField (options p)) (JNum 1), st''))"
    by blast
  have "st' = ?cleared"
  proof (rule nth_equalityI)
    show "length st' = length ?cleared" using len by simp
    fix j assume "j < length st'"
    with len have "j = 0 \<or> j = 1 \<or> j = 2" by auto
    with nth show "st' ! j = ?cleared ! j"
      by (auto simp: seq_record_def global_record_def)
  qed
  moreover have "seq_record ''US'' ''NYC'' 1 \<in> set ?st" by simp
  with nxt have "id_doc (seq_record ''US'' ''NYC'' 1) = ''seq'' \<and>
      id_opt (options seq_counter) = ''seq'' \<and> isNew (person ''US'' ''NYC'') \<and>
      getReferenceField seq_counter (toJSON (person ''US'' ''NYC'')) =
        reference (seq_record ''US'' ''NYC'' 1) \<longrightarrow>
      (\<exists>st''. pre_save seq_counter None (person ''US'' ''NYC'') st' =
        (None, set_field (person ''US'' ''NYC'') (incField (options seq_counter)) (JNum 1), st''))"
    by blast
  then have "\<exists>st''. pre_save seq_counter None (person ''US'' ''NYC'') st' =
      (None, set_field (person ''US'' ''NYC'') (incField (options seq_counter)) (JNum 1), st'')"
    by (simp add: seq_counter_options getReferenceField_person seq_record_def)
  moreover from resetCounter_all [of seq_counter "''seq''" "[global_record 5]"]
  have "resetCounter seq_counter None ''seq'' Callback [global_record 5] = (None, [global_record 5])"
    by (auto simp: global_record_def)
  ultimately show ?thesis using r by (simp add: seq_counter_options)
qed

text \<open>
  Claim C5. A reset called with an id and a reference mapping sets to 0 exactly the
  counter documents whose id is the given one and whose reference equals the object
  derived from the mapping, and leaves every other counter document as it is. The next
  save with that reference receives 1, and the current value of every other pair is what
  it was. The witness runs the example: two saves for FR/Paris and one for US/NYC, the
  reset of FR/Paris, then FR/Paris receives 1 and US/NYC receives 2.
\<close>

theorem resetCounter_reference:
  "\<exists>st'. resetCounter parent None i (Reference m) st = (None, st') \<and>
         length st' = length st \<and>
         (\<forall>j<length st.
            st' ! j = (if matches i (getReferenceField parent m) (st ! j)
                       then (st ! j)\<lparr>counter := 0\<rparr> else st ! j)) \<and>
         current_value i (getReferenceField parent m) st' = 0 \<and>
         (\<forall>i' r'. (i', r') \<noteq> (i, getReferenceField parent m) \<longrightarrow>
            current_value i' r' st' = current_value i' r' st)"
  by (simp add: resetCounter_Reference current_value_reset_key current_value_reset_other)

theorem resetCounter_reference_witness:
  "pre_save seq_counter None (person ''FR'' ''Paris'') [] =
     (None, set_field (person ''FR'' ''Paris'') ''_id'' (JNum 1), [seq_record ''FR'' ''Paris'' 1]) \<and>
   pre_save seq_counter None (person ''FR'' ''Paris'') [seq_record ''FR'' ''Paris'' 1] =
     (None, set_field (person ''FR'' ''Paris'') ''_id'' (JNum 2), [seq_record ''FR'' ''Paris'' 2]) \<and>
   pre_save seq_counter None (person ''US'' ''NYC'') [seq_record ''FR'' ''Paris'' 2] =
     (None, set_field (person ''US'' ''NYC'') ''_id'' (JNum 1),
      [seq_record ''FR'' ''Paris'' 2, seq_record ''US'' ''NYC'' 1]) \<and>
   resetCounter seq_counter None ''seq'' (Reference (toJSON (person ''FR'' ''Paris'')))
       [seq_record ''FR'' ''Paris'' 2, seq_record ''US'' ''NYC'' 1] =
     (None, [seq_record ''FR'' ''Paris'' 0, seq_record ''US'' ''NYC'' 1]) \<and>
   pre_save seq_counter None (person ''FR'' ''Paris'')
       [seq_record ''FR'' ''Paris'' 0, seq_record ''US'' ''NYC'' 1] =
     (None, set_field (person ''FR'' ''Paris'') ''_id'' (JNum 1),
      [seq_record ''FR'' ''Paris'' 1, seq_record ''US'' ''NYC'' 1]) \<and>
   pre_save seq_counter None (person ''US'' ''NYC'')
       [seq_record ''FR'' ''Paris'' 1, seq_record ''US'' ''NYC'' 1] =
     (None, set_field (person ''US'' ''NYC'') ''_id'' (JNum 2),
      [seq_record ''FR'' ''Paris'' 1, seq_record ''US'' ''NYC'' 2])"
proof -
  let ?st = "[seq_record ''FR'' ''Paris'' 2, seq_record ''US'' ''NYC'' 1]"
  let ?cleared = "[seq_record ''FR'' ''Paris'' 0, seq_record ''US'' ''NYC'' 1]"
  from resetCounter_reference [of seq_counter "''seq''" "toJSON (person ''FR'' ''Paris'')" ?st]
  obtain st' where r: "resetCounter seq_counter None ''seq''
        (Reference (toJSON (person ''FR'' ''Paris''))) ?st = (None, st')"
    and len: "length st' = length ?st"
    and nth: "\<forall>j<length ?st. st' ! j =
        (if matches ''seq'' (place ''FR'' ''Paris'') (?st ! j)
         then (?st ! j)\<lparr>counter := 0\<rparr> else ?st ! j)"
    unfolding getReferenceField_person by blast
  have "st' = ?cleared"
  proof (rule nth_equalityI)
    show "length st' = length ?cleared" using len by simp
    fix j assume "j < length st'"
    with len have "j = 0 \<or> j = 1" by auto
    with nth show "st' ! j = ?cleared ! j"
      by (auto simp: seq_record_def matches_def place_def)
  qed
  with r have reset: "resetCounter seq_counter None ''seq''
        (Reference (toJSON (person ''FR'' ''Paris''))) ?st = (None, ?cleared)"
    by simp
  have ne: "(''FR'', ''Paris'') \<noteq> (''US'', ''NYC'')" by simp
  show ?thesis
    using reset pre_save_seq_empty [of "''FR''" "''Paris''"]
      pre_save_seq_first [of "''FR''" "''Paris''" 1 "[]"]
      pre_save_seq_append [OF ne, of 2]
      pre_save_seq_first [of "''FR''" "''Paris''" 0 "[seq_record ''US'' ''NYC'' 1]"]
      pre_save_seq_second [OF ne, of 1 1]
    by simp
qed

section \<open>The reference derived from a mapping\<close>

lemma reduce_map_of:
  "map_of (foldl (\<lambda>map f. AList.update f (document f) map) acc fs) k =
     (if k \<in> set fs then Some (document k) else map_of acc k)"
  by (induction fs arbitrary: acc) (auto simp: update_conv')

lemma reduce_keys:
  "fst ` set (foldl (\<lambda>map f. AList.update f (document f) map) acc fs) = fst ` set acc \<union> set fs"
  by (induction fs arbitrary: acc) (auto simp: dom_update)

lemma reduce_distinct:
  "distinct (map fst acc) \<Longrightarrow>
   distinct (map fst (foldl (\<lambda>map f. AList.update f (document f) map) acc fs))"
  by (induction fs arbitrary: acc) (auto simp: distinct_update)

lemma reduce_cong:
  "\<forall>f\<in>set fs. document' f = document f \<Longrightarrow>
   foldl (\<lambda>map f. AList.update f (document' f) map) acc fs =
   foldl (\<lambda>map f. AList.update f (document f) map) acc fs"
  by (induction fs arbitrary: acc) auto

text \<open>
  Claim C10, as stated, fails in its last part. The scoped counter is configured with the
  fields \<^verbatim>\<open>country\<close> and \<^verbatim>\<open>city\<close>. A document saved without a country creates a counter
  document whose reference holds \<^verbatim>\<open>undefined\<close> under \<^verbatim>\<open>country\<close>; a reset with the mapping
  \<^verbatim>\<open>{ city: 'Paris' }\<close>, which gives one of the two configured fields only, derives the same
  reference and resets that counter document.
\<close>

theorem reset_strict_subset_counterexample:
  "pre_save seq_counter None (townsman ''Paris'') [] =
     (None, set_field (townsman ''Paris'') ''_id'' (JNum 1), [town_record ''Paris'' 1]) \<and>
   resetCounter seq_counter None ''seq'' (Reference [''city'' \<mapsto> JStr ''Paris''])
       [town_record ''Paris'' 1] =
     (None, [town_record ''Paris'' 0])"
proof -
  have "getReferenceField seq_counter [''city'' \<mapsto> JStr ''Paris''] =
      Some [(''country'', None), (''city'', Some (JStr ''Paris''))]"
    by (simp add: getReferenceField_def seq_counter_def)
  then show ?thesis
    by (simp add: pre_save_new seq_counter_options getReferenceField_townsman town_record_def
        resetCounter_Reference matches_def Let_def)
qed

text \<open>
  Claim C10, amended. For a counter with reference fields, the reset derives its reference
  from the mapping over exactly the configured fields: the keys of the reference are the
  configured fields, each once; each holds what the mapping gives for it, \<^verbatim>\<open>undefined\<close> when
  the mapping has no such key; and mappings that agree on the configured fields give the
  same reference, so other keys are ignored. The reset sets to 0 the counter documents
  with the given id and exactly this reference. When the mapping leaves a configured field
  out, every counter document whose reference has a value for that field is unchanged;
  the counter documents that are reset are those created from documents lacking the same
  fields.
\<close>

theorem resetCounter_exact_key:
  assumes "useReference parent"
  shows "\<exists>key. getReferenceField parent m = Some key \<and>
           distinct (map fst key) \<and>
           fst ` set key = set (referenceFields (options parent)) \<and>
           (\<forall>f\<in>set (referenceFields (options parent)). map_of key f = Some (m f)) \<and>
           (\<forall>m'. (\<forall>f\<in>set (referenceFields (options parent)). m' f = m f) \<longrightarrow>
                  getReferenceField parent m' = Some key) \<and>
           (\<exists>st'. resetCounter parent None i (Reference m) st = (None, st') \<and>
                  length st' = length st \<and>
                  (\<forall>j<length st.
                     st' ! j = (if id_doc (st ! j) = i \<and> reference (st ! j) = Some key
                                then (st ! j)\<lparr>counter := 0\<rparr> else st ! j)) \<and>
                  (\<forall>j<length st. \<forall>f v key'.
                     f \<in> set (referenceFields (options parent)) \<and> m f = None \<and>
                     reference (st ! j) = Some key' \<and> map_of key' f = Some (Some v) \<longrightarrow>
                     st' ! j = st ! j))"
proof -
  let ?fs = "referenceFields (options parent)"
  let ?key = "foldl (\<lambda>map f. AList.update f (m f) map) [] ?fs"
  have k: "getReferenceField parent m = Some ?key"
    using assms by (simp add: getReferenceField_def)
  have d: "distinct (map fst ?key)" by (simp add: reduce_distinct)
  have s: "fst ` set ?key = set ?fs" by (simp add: reduce_keys)
  have v: "\<forall>f\<in>set ?fs. map_of ?key f = Some (m f)" by (simp add: reduce_map_of)
  have c: "\<forall>m'. (\<forall>f\<in>set ?fs. m' f = m f) \<longrightarrow> getReferenceField parent m' = Some ?key"
    using assms by (simp add: getReferenceField_def reduce_cong)
  let ?st' = "map (\<lambda>d. if matches i (Some ?key) d then d\<lparr>counter := 0\<rparr> else d) st"
  have r: "resetCounter parent None i (Reference m) st = (None, ?st')"
    by (simp add: resetCounter_Reference k)
  have e: "\<forall>j<length st. ?st' ! j = (if id_doc (st ! j) = i \<and> reference (st ! j) = Some ?key
                                then (st ! j)\<lparr>counter := 0\<rparr> else st ! j)"
    by (simp add: matches_def)
  have u: "\<forall>j<length st. \<forall>f v key'.
             f \<in> set ?fs \<and> m f = None \<and> reference (st ! j) = Some key' \<and>
             map_of key' f = Some (Some v) \<longrightarrow> ?st' ! j = st ! j"
  proof (intro allI impI)
    fix j f v key'
    assume j: "j < length st"
      and h: "f \<in> set ?fs \<and> m f = None \<and> reference (st ! j) = Some key' \<and>
              map_of key' f = Some (Some v)"
    from h v have "map_of ?key f = Some None" by auto
    with h have "key' \<noteq> ?key" by auto
    with h j show "?st' ! j = st ! j" by (simp add: matches_def)
  qed
  show ?thesis
    apply (rule exI [of _ ?key])
    apply (intro conjI)
         apply (rule k)
        apply (rule d)
       apply (rule s)
      apply (rule v)
     apply (rule c)
    apply (rule exI [of _ ?st'])
    using r e u apply simp
    done
qed

theorem resetCounter_exact_key_witness:
  "useReference seq_counter \<and>
   getReferenceField seq_counter [''city'' \<mapsto> JStr ''Paris'', ''name'' \<mapsto> JStr ''Zoe''] =
     Some [(''country'', None), (''city'', Some (JStr ''Paris''))] \<and>
   resetCounter seq_counter None ''seq'' (Reference [''city'' \<mapsto> JStr ''Paris''])
       [seq_record ''FR'' ''Paris'' 2, town_record ''Paris'' 1] =
     (None, [seq_record ''FR'' ''Paris'' 2, town_record ''Paris'' 0])"
proof -
  let ?m = "[''city'' \<mapsto> JStr ''Paris'']"
  let ?st = "[seq_record ''FR'' ''Paris'' 2, town_record ''Paris'' 1]"
  let ?k = "[(''country'', None), (''city'', Some (JStr ''Paris''))]"
  have u: "useReference seq_counter" by (simp add: seq_counter_def)
  have fs: "referenceFields (options seq_counter) = [''country'', ''city'']"
    by (simp add: seq_counter_def)
  have km: "getReferenceField seq_counter ?m = Some ?k"
    by (simp add: getReferenceField_def seq_counter_def)
  from resetCounter_exact_key [OF u, of ?m "''seq''" ?st]
  obtain key st' where k: "getReferenceField seq_counter ?m = Some key"
    and ext: "\<forall>m'. (\<forall>f\<in>set (referenceFields (options seq_counter)). m' f = ?m f) \<longrightarrow>
                  getReferenceField seq_counter m' = Some key"
    and r: "resetCounter seq_counter None ''seq'' (Reference ?m) ?st = (None, st')"
    and len: "length st' = length ?st"
    and nth: "\<forall>j<length ?st. st' ! j =
        (if id_doc (?st ! j) = ''seq'' \<and> reference (?st ! j) = Some key
         then (?st ! j)\<lparr>counter := 0\<rparr> else ?st ! j)"
    by blast
  from k km have key: "key = ?k" by simp
  have "\<forall>f\<in>set (referenceFields (options seq_counter)).
      [''city'' \<mapsto> JStr ''Paris'', ''name'' \<mapsto> JStr ''Zoe''] f = ?m f"
    by (simp add: fs)
  with ext key
  have 1: "getReferenceField seq_counter [''city'' \<mapsto> JStr ''Paris'', ''name'' \<mapsto> JStr ''Zoe''] =
      Some ?k" by blast
  have "st' = [seq_record ''FR'' ''Paris'' 2, town_record ''Paris'' 0]"
  proof (rule nth_equalityI)
    show "length st' = length [seq_record ''FR'' ''Paris'' 2, town_record ''Paris'' 0]"
      using len by simp
    fix j assume "j < length st'"
    with len have "j = 0 \<or> j = 1" by auto
    with nth key show "st' ! j = [seq_record ''FR'' ''Paris'' 2, town_record ''Paris'' 0] ! j"
      by (auto simp: seq_record_def town_record_def place_def)
  qed
  with r u 1 show ?thesis by simp
qed

section \<open>Saves in flight at once\<close>

lemma returned_values_append [simp]:
  "returned_values f (xs @ ys) = returned_values f xs @ returned_values f ys"
  by (simp add: returned_values_def)

lemma returned_values_Cons [simp]:
  "returned_values f (c # cs) = returned f c @ returned_values f cs"
  by (simp add: returned_values_def)

lemma returned_values_Nil [simp]: "returned_values f [] = []"
  by (simp add: returned_values_def)

lemma returned_values_Pending [simp]: "returned_values f (map Pending ds) = []"
  by (induction ds) simp_all

lemma returned_values_split:
  "n < length cs \<Longrightarrow>
   returned_values f cs =
     returned_values f (take n cs) @ returned f (cs ! n) @ returned_values f (drop (Suc n) cs)"
  by (subst id_take_nth_drop [of n cs]) simp_all

lemma returned_values_update:
  "n < length cs \<Longrightarrow>
   returned_values f (cs[n := c]) =
     returned_values f (take n cs) @ returned f c @ returned_values f (drop (Suc n) cs)"
  by (simp add: upd_conv_take_nth_drop)

lemma count_Returned_update:
  assumes n: "n < length cs" and p: "cs ! n = Pending d"
  shows "length (filter is_Returned (cs[n := c])) =
         length (filter is_Returned cs) + (if is_Returned c then 1 else 0)"
proof -
  have "cs = take n cs @ Pending d # drop (Suc n) cs"
    using id_take_nth_drop [OF n] p by simp
  then have "length (filter is_Returned cs) =
      length (filter is_Returned (take n cs)) + length (filter is_Returned (drop (Suc n) cs))"
    by (metis filter.simps(2) filter_append is_Returned.simps(2) length_append)
  then show ?thesis using n by (simp add: upd_conv_take_nth_drop)
qed

lemma run_inv_step:
  assumes inv: "run_inv parent r cs st" and st: "step parent (cs, st) (cs', st')"
  shows "run_inv parent r cs' st'"
  using st
proof (cases rule: step.cases)
  case (returns n d host d')
  let ?f = "incField (options parent)"
  let ?i = "id_opt (options parent)"
  let ?c = "current_value ?i r st"
  from returns inv have new: "isNew d" and key: "getReferenceField parent (toJSON d) = r"
    by (auto simp: run_inv_def dest: nth_mem)
  from returns new have host: "host = None"
    by (cases host) (simp_all add: pre_save_rejected)
  from returns new key host
  have d': "d' = set_field d ?f (JNum (?c + 1))"
    and st': "st' = snd (upsert_inc ?i r st)"
    by (simp_all add: pre_save_new_value)
  have ret: "returned ?f (Returned d') = [JNum (?c + 1)]"
    by (simp add: d' set_field_def)
  have cur: "current_value ?i r st' = ?c + 1"
    by (simp add: st' upsert_inc_current)
  have old: "returned_values ?f cs =
      returned_values ?f (take n cs) @ returned_values ?f (drop (Suc n) cs)"
    using returned_values_split [of n cs ?f] returns by simp
  have upd: "returned_values ?f cs' =
      returned_values ?f (take n cs) @ [JNum (?c + 1)] @ returned_values ?f (drop (Suc n) cs)"
    using returned_values_update [of n cs ?f "Returned d'"] returns ret by simp
  from inv have nonneg: "0 \<le> ?c"
    and dist: "distinct (returned_values ?f cs)"
    and vals: "set (returned_values ?f cs) = JNum ` {1..?c}"
    and len: "length (returned_values ?f cs) = length (filter is_Returned cs)"
    by (simp_all add: run_inv_def)
  have fresh: "JNum (?c + 1) \<notin> set (returned_values ?f cs)"
    by (auto simp: vals)
  have pend: "\<forall>d. Pending d \<in> set cs' \<longrightarrow> isNew d \<and> getReferenceField parent (toJSON d) = r"
    using inv returns set_update_subset_insert [of cs n "Returned d'"]
    by (auto simp: run_inv_def)
  have "{1..?c + 1} = insert (?c + 1) {1..?c}" using nonneg by auto
  then have vals': "set (returned_values ?f cs') = JNum ` {1..current_value ?i r st'}"
    using vals by (auto simp: upd old cur)
  have dist': "distinct (returned_values ?f cs')"
    using dist fresh by (auto simp: upd old)
  have "length (returned_values ?f cs') = Suc (length (returned_values ?f cs))"
    by (simp add: upd old)
  moreover have "length (filter is_Returned cs') = Suc (length (filter is_Returned cs))"
    using count_Returned_update [of n cs d "Returned d'"] returns by simp
  ultimately have len': "length (returned_values ?f cs') = length (filter is_Returned cs')"
    using len by simp
  show ?thesis
    using pend nonneg cur vals' dist' len' by (simp add: run_inv_def)
next
  case (fails n d host e d')
  let ?f = "incField (options parent)"
  from fails inv have new: "isNew d"
    by (auto simp: run_inv_def dest: nth_mem)
  from fails new obtain err where host: "host = Some err"
    by (cases host) (simp_all add: pre_save_new)
  from fails new host have st': "st' = st" by (simp add: pre_save_rejected)
  have same: "returned_values ?f cs' = returned_values ?f cs"
    using returned_values_update [of n cs ?f "Failed e"] returned_values_split [of n cs ?f] fails
    by simp
  have pend: "\<forall>d. Pending d \<in> set cs' \<longrightarrow> isNew d \<and> getReferenceField parent (toJSON d) = r"
    using inv fails set_update_subset_insert [of cs n "Failed e"]
    by (auto simp: run_inv_def)
  have "length (filter is_Returned cs') = length (filter is_Returned cs)"
    using count_Returned_update [of n cs d "Failed e"] fails by simp
  with inv pend same st' show ?thesis by (simp add: run_inv_def)
qed

lemma run_inv_run:
  assumes "(step parent)\<^sup>*\<^sup>* (cs, st) (cs', st')" and "run_inv parent r cs st"
  shows "run_inv parent r cs' st'"
  using assms
  by (induction rule: rtranclp_induct2) (auto intro: run_inv_step)

lemma step_length: "step parent (cs, st) (cs', st') \<Longrightarrow> length cs' = length cs"
  by (auto elim: step.cases)

lemma run_length:
  "(step parent)\<^sup>*\<^sup>* (cs, st) (cs', st') \<Longrightarrow> length cs' = length cs"
  by (induction rule: rtranclp_induct2) (auto dest: step_length)

text \<open>
  Claim C2, as stated, fails. Two first saves for FR/Paris are started on an empty
  collection. The first is carried out and receives 1. The call of the second is rejected
  by the database with a duplicate key, as happens when it races the creation of the
  counter document; the hook hands the error on, and the save receives nothing. The run is
  finished, and the values returned by the two calls are 1 alone, not 1 and 2.
\<close>

theorem concurrent_saves_counterexample:
  "(step seq_counter)\<^sup>*\<^sup>*
     (map Pending [person ''FR'' ''Paris'', person ''FR'' ''Paris''], [])
     ([Returned (set_field (person ''FR'' ''Paris'') ''_id'' (JNum 1)), Failed DuplicateKey],
      [seq_record ''FR'' ''Paris'' 1]) \<and>
   returned_values ''_id''
     [Returned (set_field (person ''FR'' ''Paris'') ''_id'' (JNum 1)), Failed DuplicateKey] =
     [JNum 1] \<and>
   set (returned_values ''_id''
     [Returned (set_field (person ''FR'' ''Paris'') ''_id'' (JNum 1)), Failed DuplicateKey]) \<noteq>
     JNum ` {1..2}"
proof -
  let ?p = "person ''FR'' ''Paris''"
  let ?p1 = "set_field ?p ''_id'' (JNum 1)"
  have "step seq_counter ([Pending ?p, Pending ?p], [])
      ([Pending ?p, Pending ?p][0 := Returned ?p1], [seq_record ''FR'' ''Paris'' 1])"
    by (rule step.returns [where d = ?p and host = None]) (simp_all add: pre_save_seq_empty)
  then have s1: "step seq_counter ([Pending ?p, Pending ?p], [])
      ([Returned ?p1, Pending ?p], [seq_record ''FR'' ''Paris'' 1])"
    by simp
  have "step seq_counter ([Returned ?p1, Pending ?p], [seq_record ''FR'' ''Paris'' 1])
      ([Returned ?p1, Pending ?p][1 := Failed DuplicateKey], [seq_record ''FR'' ''Paris'' 1])"
    by (rule step.fails [where d = ?p and host = "Some DuplicateKey"])
      (simp_all add: pre_save_rejected)
  then have s2: "step seq_counter ([Returned ?p1, Pending ?p], [seq_record ''FR'' ''Paris'' 1])
      ([Returned ?p1, Failed DuplicateKey], [seq_record ''FR'' ''Paris'' 1])"
    by simp
  from s1 s2 have run: "(step seq_counter)\<^sup>*\<^sup>* (map Pending [?p, ?p], [])
      ([Returned ?p1, Failed DuplicateKey], [seq_record ''FR'' ''Paris'' 1])"
    by simp
  have vals: "returned_values ''_id'' [Returned ?p1, Failed DuplicateKey] = [JNum 1]"
    by (simp add: set_field_def)
  have two: "JNum 2 \<in> JNum ` {1..2}" by simp
  have "JNum 2 \<notin> set [JNum 1]" by simp
  with two have "set [JNum 1] \<noteq> JNum ` {1..2}" by metis
  with run vals show ?thesis by simp
qed

text \<open>
  Claim C2, amended. Take any number N of first saves with the same id and reference,
  started on a counter that is absent or at 0, and let them run in any order, each call to
  the database carried out as a whole or rejected. At every point of the run the values
  received so far are, without repetition and without a gap, the numbers from 1 to M,
  where M is the number of calls that have returned and is at most N. Once all N saves
  have returned, the values are exactly 1 to N. A save whose call the database rejects
  receives no value.
\<close>

theorem concurrent_saves_sequential_values:
  assumes new: "\<forall>d\<in>set ds. isNew d \<and> getReferenceField parent (toJSON d) = r"
    and fresh: "current_value (id_opt (options parent)) r st = 0"
    and run: "(step parent)\<^sup>*\<^sup>* (map Pending ds, st) (cs, st')"
  shows "distinct (returned_values (incField (options parent)) cs) \<and>
         length (returned_values (incField (options parent)) cs) = length (filter is_Returned cs) \<and>
         length (filter is_Returned cs) \<le> length ds \<and>
         set (returned_values (incField (options parent)) cs) =
           JNum ` {1..int (length (filter is_Returned cs))} \<and>
         ((\<forall>c\<in>set cs. is_Returned c) \<longrightarrow>
            length (returned_values (incField (options parent)) cs) = length ds \<and>
            set (returned_values (incField (options parent)) cs) = JNum ` {1..int (length ds)})"
proof -
  let ?f = "incField (options parent)"
  let ?c = "current_value (id_opt (options parent)) r st'"
  have "run_inv parent r (map Pending ds) st"
    using new fresh by (auto simp: run_inv_def)
  from run_inv_run [OF run this]
  have nonneg: "0 \<le> ?c"
    and dist: "distinct (returned_values ?f cs)"
    and vals: "set (returned_values ?f cs) = JNum ` {1..?c}"
    and len: "length (returned_values ?f cs) = length (filter is_Returned cs)"
    by (simp_all add: run_inv_def)
  have "card (set (returned_values ?f cs)) = length (filter is_Returned cs)"
    using dist len by (simp add: distinct_card)
  moreover have "card (JNum ` {1..?c}) = nat ?c"
    by (simp add: card_image inj_on_def)
  ultimately have c: "?c = int (length (filter is_Returned cs))" using vals nonneg by simp
  have le: "length (filter is_Returned cs) \<le> length ds"
    using length_filter_le [of is_Returned cs] run_length [OF run] by simp
  have all: "length (filter is_Returned cs) = length ds" if "\<forall>c\<in>set cs. is_Returned c"
  proof -
    from that have "filter is_Returned cs = cs" by (simp add: filter_id_conv)
    with run_length [OF run] show ?thesis by simp
  qed
  from dist len vals c le all show ?thesis by simp
qed

theorem concurrent_saves_sequential_values_witness:
  "(step seq_counter)\<^sup>*\<^sup>*
     (map Pending [person ''FR'' ''Paris'', person ''FR'' ''Paris''], [])
     ([Returned (set_field (person ''FR'' ''Paris'') ''_id'' (JNum 2)),
       Returned (set_field (person ''FR'' ''Paris'') ''_id'' (JNum 1))],
      [seq_record ''FR'' ''Paris'' 2]) \<and>
   returned_values ''_id''
     [Returned (set_field (person ''FR'' ''Paris'') ''_id'' (JNum 2)),
      Returned (set_field (person ''FR'' ''Paris'') ''_id'' (JNum 1))] = [JNum 2, JNum 1] \<and>
   set (returned_values ''_id''
     [Returned (set_field (person ''FR'' ''Paris'') ''_id'' (JNum 2)),
      Returned (set_field (person ''FR'' ''Paris'') ''_id'' (JNum 1))]) = JNum ` {1..2}"
proof -
  let ?p = "person ''FR'' ''Paris''"
  let ?p1 = "set_field ?p ''_id'' (JNum 1)"
  let ?p2 = "set_field ?p ''_id'' (JNum 2)"
  have "step seq_counter ([Pending ?p, Pending ?p], [])
      ([Pending ?p, Pending ?p][1 := Returned ?p1], [seq_record ''FR'' ''Paris'' 1])"
    by (rule step.returns [where d = ?p and host = None]) (simp_all add: pre_save_seq_empty)
  then have s1: "step seq_counter ([Pending ?p, Pending ?p], [])
      ([Pending ?p, Returned ?p1], [seq_record ''FR'' ''Paris'' 1])"
    by simp
  have "step seq_counter ([Pending ?p, Returned ?p1], [seq_record ''FR'' ''Paris'' 1])
      ([Pending ?p, Returned ?p1][0 := Returned ?p2], [seq_record ''FR'' ''Paris'' 2])"
    by (rule step.returns [where d = ?p and host = None])
      (simp_all add: pre_save_seq_first [of _ _ 1 "[]", simplified])
  then have s2: "step seq_counter ([Pending ?p, Returned ?p1], [seq_record ''FR'' ''Paris'' 1])
      ([Returned ?p2, Returned ?p1], [seq_record ''FR'' ''Paris'' 2])"
    by simp
  from s1 s2 have run: "(step seq_counter)\<^sup>*\<^sup>* (map Pending [?p, ?p], [])
      ([Returned ?p2, Returned ?p1], [seq_record ''FR'' ''Paris'' 2])"
    by simp
  have new: "\<forall>d\<in>set [?p, ?p]. isNew d \<and> getReferenceField seq_counter (toJSON d) = place ''FR'' ''Paris''"
    by (simp add: getReferenceField_person)
  have fresh: "current_value (id_opt (options seq_counter)) (place ''FR'' ''Paris'') [] = 0"
    by (simp add: current_value_def)
  have fin: "\<forall>c\<in>set [Returned ?p2, Returned ?p1]. is_Returned c" by simp
  have vals: "returned_values ''_id'' [Returned ?p2, Returned ?p1] = [JNum 2, JNum 1]"
    by (simp add: set_field_def)
  from concurrent_saves_sequential_values [OF new fresh run] fin
  have "set (returned_values ''_id'' [Returned ?p2, Returned ?p1]) = JNum ` {1..2}"
    by (simp add: seq_counter_options)
  with run vals show ?thesis by simp
qed

end
